theory Spec2Isabelle
  imports Main
begin

section \<open>Values\<close>

text \<open>
  The documents read from the source database, the bodies written to the target store and
  the resume tokens kept in the checkpoint files are JavaScript values. The model keeps
  the values the script can tell apart: \<open>undefined\<close>, \<open>null\<close>, booleans, integral
  numbers, strings, the driver's native identifier objects (an \<open>ObjectId\<close>, given by its
  hexadecimal text), plain objects with their properties in enumeration order, and arrays.
  A property list stands for an object, so its keys are meant to be distinct; where a list
  repeats a key the first entry is the one a lookup finds.
\<close>

datatype jsval =
    JUndefined
  | JNull
  | JBool bool
  | JNum int
  | JStr string
  | JObjectId string
  | JObj "(string \<times> jsval) list"
  | JArr "jsval list"

datatype error =
    TypeError
  | SyntaxError
  | FsError string
  | InvalidPath
  | InvalidArgument
  | Unavailable
  | NotFound
  | CursorError

text \<open>Sequencing of a step that may throw with its continuation.\<close>

definition andThen :: "error + 'a \<Rightarrow> ('a \<Rightarrow> error + 'b) \<Rightarrow> error + 'b" where
  "andThen r f = (case r of Inl e \<Rightarrow> Inl e | Inr x \<Rightarrow> f x)"

text \<open>\<open>typeof v\<close>: \<open>null\<close>, identifier objects, plain objects and arrays are all \<open>'object'\<close>.\<close>

fun typeof :: "jsval \<Rightarrow> string" where
  "typeof JUndefined = ''undefined''"
| "typeof JNull = ''object''"
| "typeof (JBool b) = ''boolean''"
| "typeof (JNum n) = ''number''"
| "typeof (JStr s) = ''string''"
| "typeof (JObjectId h) = ''object''"
| "typeof (JObj fs) = ''object''"
| "typeof (JArr xs) = ''object''"

text \<open>The truth value of \<open>v\<close> in a condition, so that \<open>!v\<close> is \<open>\<not> truthy v\<close>.\<close>

fun truthy :: "jsval \<Rightarrow> bool" where
  "truthy JUndefined = False"
| "truthy JNull = False"
| "truthy (JBool b) = b"
| "truthy (JNum n) = (n \<noteq> 0)"
| "truthy (JStr s) = (s \<noteq> [])"
| "truthy (JObjectId h) = True"
| "truthy (JObj fs) = True"
| "truthy (JArr xs) = True"

text \<open>Decimal text of a number.\<close>

fun digits :: "nat \<Rightarrow> string" where
  "digits n =
     (if n < 10 then [''0123456789'' ! n]
      else digits (n div 10) @ [''0123456789'' ! (n mod 10)])"

declare digits.simps [simp del]

definition showInt :: "int \<Rightarrow> string" where
  "showInt i = (if i < 0 then CHR ''-'' # digits (nat (- i)) else digits (nat i))"

text \<open>
  \<open>v.toString()\<close>. On \<open>undefined\<close> and \<open>null\<close> the property access throws a TypeError.
  A plain object has the text \<open>[object Object]\<close>; an array joins the texts of its
  elements with commas, an \<open>undefined\<close> or \<open>null\<close> element giving the empty text.
\<close>

fun toString :: "jsval \<Rightarrow> error + string"
and joinElems :: "jsval list \<Rightarrow> string" where
  "toString JUndefined = Inl TypeError"
| "toString JNull = Inl TypeError"
| "toString (JBool b) = Inr (if b then ''true'' else ''false'')"
| "toString (JNum n) = Inr (showInt n)"
| "toString (JStr s) = Inr s"
| "toString (JObjectId h) = Inr h"
| "toString (JObj fs) = Inr ''[object Object]''"
| "toString (JArr xs) = Inr (joinElems xs)"
| "joinElems [] = []"
| "joinElems [x] = (case toString x of Inl e \<Rightarrow> [] | Inr s \<Rightarrow> s)"
| "joinElems (x # y # ys) =
     (case toString x of Inl e \<Rightarrow> [] | Inr s \<Rightarrow> s) @ '','' @ joinElems (y # ys)"

text \<open>
  \<open>v[k]\<close> for a property name \<open>k\<close>: throws on \<open>undefined\<close> and \<open>null\<close>, finds the property
  of a plain object, and is \<open>undefined\<close> where there is no such property. The names looked
  up by the script (\<open>_id\<close>, \<open>resumeToken\<close>) are no properties of a primitive, an identifier
  object or an array.
\<close>

fun getField :: "jsval \<Rightarrow> string \<Rightarrow> error + jsval" where
  "getField JUndefined k = Inl TypeError"
| "getField JNull k = Inl TypeError"
| "getField (JObj fs) k = (case map_of fs k of None \<Rightarrow> Inr JUndefined | Some v \<Rightarrow> Inr v)"
| "getField v k = Inr JUndefined"

text \<open>\<open>delete v[k]\<close> on a value that passed \<open>v[k]\<close>: only a plain object changes.\<close>

fun deleteField :: "string \<Rightarrow> jsval \<Rightarrow> jsval" where
  "deleteField k (JObj fs) = JObj (filter (\<lambda>(k', v). k' \<noteq> k) fs)"
| "deleteField k v = v"

section \<open>Document translation\<close>

text \<open>
  \<^verbatim>\<open>
  function convertIdToString(obj) {
    if (typeof obj !== 'object' || obj === null) return obj;
    for (const key in obj) {
      if (key === '_id') {
        obj[key] = obj[key].toString();
      } else if (typeof obj[key] === 'object') {
        convertIdToString(obj[key]);
      }
    }
    return obj;
  }
  \<close>
  The function rewrites its argument in place, property by property, and stops at the
  first \<open>toString\<close> that throws. Documents come from the driver as trees, so the
  rewritten tree is returned as a value. The keys of an array are its indices, never
  \<open>_id\<close>, so for an array only the second branch applies. An identifier object has
  no enumerable property named \<open>_id\<close> and none that holds a document; the loop leaves
  it as it is.
\<close>

fun convertIdToString :: "jsval \<Rightarrow> error + jsval"
and convertFields :: "(string \<times> jsval) list \<Rightarrow> error + (string \<times> jsval) list"
and convertElems :: "jsval list \<Rightarrow> error + jsval list" where
  "convertIdToString (JObj fs) = andThen (convertFields fs) (\<lambda>fs'. Inr (JObj fs'))"
| "convertIdToString (JArr xs) = andThen (convertElems xs) (\<lambda>xs'. Inr (JArr xs'))"
| "convertIdToString JUndefined = Inr JUndefined"
| "convertIdToString JNull = Inr JNull"
| "convertIdToString (JBool b) = Inr (JBool b)"
| "convertIdToString (JNum n) = Inr (JNum n)"
| "convertIdToString (JStr s) = Inr (JStr s)"
| "convertIdToString (JObjectId h) = Inr (JObjectId h)"
| "convertFields [] = Inr []"
| "convertFields ((k, v) # fs) =
     (if k = ''_id'' then
        andThen (toString v) (\<lambda>s.
        andThen (convertFields fs) (\<lambda>fs'. Inr ((k, JStr s) # fs')))
      else if typeof v = ''object'' then
        andThen (convertIdToString v) (\<lambda>v'.
        andThen (convertFields fs) (\<lambda>fs'. Inr ((k, v') # fs')))
      else
        andThen (convertFields fs) (\<lambda>fs'. Inr ((k, v) # fs')))"
| "convertElems [] = Inr []"
| "convertElems (x # xs) =
     (if typeof x = ''object'' then
        andThen (convertIdToString x) (\<lambda>x'.
        andThen (convertElems xs) (\<lambda>xs'. Inr (x' # xs')))
      else
        andThen (convertElems xs) (\<lambda>xs'. Inr (x # xs')))"

section \<open>Configuration\<close>

text \<open>The contents of \<open>replication_config.json\<close>, as the script reads them.\<close>

record collectionConfig =
  sourceCollection :: string
  targetCollection :: string

record sourceConfig =
  connectionString :: string
  database :: string

record targetConfig =
  projectId :: string
  databaseId :: string
  collections :: "collectionConfig list"

record databasePair =
  source :: sourceConfig
  target :: targetConfig

record config =
  databasePairs :: "databasePair list"
  saveThreshold :: nat

section \<open>The world the script acts on\<close>

text \<open>
  A cursor over a source collection yields documents until it is exhausted or until a
  read fails. A checkpoint file is absent, unreadable with some error code, or holds a
  text, which is JSON for some value or is no JSON at all. The console output is kept as
  the list of the lines printed, one constructor per message of the script.
\<close>

datatype fetch = Fetched jsval | FetchFailed

datatype filedata = Json jsval | NotJson

datatype fnode = Absent | Unreadable string | Content filedata

datatype logline =
    MigratingCollection string string string string
  | MigrationCompleted string
  | ErrorMigrating string error
  | StartingLive string string string string
  | IAmHere
  | ResumeTokenFor string string jsval
  | InvalidMode string
  | ErrorProcessingDatabase string error
  | ConnectionClosed string
  | TokenFileNotFound string
  | ErrorLoadingToken string error
  | ErrorSavingToken string error

text \<open>
  The closure that \<open>startLiveReplication\<close> leaves behind as the listener of a change
  stream: the target collection, the checkpoint file, the threshold, the \<open>startAfter\<close>
  option the script built for \<open>watch\<close> (if any) and the counter \<open>changeCount\<close>.
\<close>

record pipeline =
  targetDb :: string
  targetColl :: string
  tokenPath :: string
  threshold :: nat
  startAfter :: "jsval option"
  changeCount :: nat

text \<open>
  \<open>mongo\<close> gives, for a database and a collection, what a scan of the collection yields.
  \<open>firestore\<close> gives, for a target database, a collection and a document key, the fields
  of the stored document. \<open>storeRefuses\<close> marks the documents of the target that the
  store refuses to write (it cannot be reached, or it denies the write).
  \<open>writeFails\<close> marks the paths where \<open>writeFile\<close> is rejected, and \<open>writeFileCalls\<close>
  lists the calls of \<open>writeFile\<close> in the order they were made.
\<close>

type_synonym docref = "string \<times> string \<times> string"

record world =
  mongo :: "string \<times> string \<Rightarrow> fetch list"
  firestore :: "docref \<Rightarrow> (string \<Rightarrow> jsval option) option"
  storeRefuses :: "docref \<Rightarrow> bool"
  files :: "string \<Rightarrow> fnode"
  writeFails :: "string \<Rightarrow> bool"
  console :: "logline list"
  writeFileCalls :: "(string \<times> filedata) list"
  streams :: "pipeline list"

definition say :: "logline \<Rightarrow> world \<Rightarrow> world" where
  "say l w = w\<lparr>console := console w @ [l]\<rparr>"

subsection \<open>The file system\<close>

definition readFile :: "world \<Rightarrow> string \<Rightarrow> error + filedata" where
  "readFile w path =
     (case files w path of
        Absent \<Rightarrow> Inl (FsError ''ENOENT'')
      | Unreadable code \<Rightarrow> Inl (FsError code)
      | Content d \<Rightarrow> Inr d)"

definition writeFile :: "string \<Rightarrow> filedata \<Rightarrow> world \<Rightarrow> error option \<times> world" where
  "writeFile path d w =
     (if writeFails w path
      then (Some (FsError ''EACCES''), w\<lparr>writeFileCalls := writeFileCalls w @ [(path, d)]\<rparr>)
      else (None, w\<lparr>files := (files w)(path := Content d),
                     writeFileCalls := writeFileCalls w @ [(path, d)]\<rparr>))"

definition JSON_parse :: "filedata \<Rightarrow> error + jsval" where
  "JSON_parse d = (case d of Json v \<Rightarrow> Inr v | NotJson \<Rightarrow> Inl SyntaxError)"

text \<open>\<open>JSON.stringify({ resumeToken })\<close>, for a token that is \<open>undefined\<close> or a JSON value.\<close>

definition checkpointText :: "jsval \<Rightarrow> filedata" where
  "checkpointText tok = Json (JObj [(''resumeToken'', tok)])"

subsection \<open>The target store\<close>

text \<open>
  \<open>collection.doc(id)\<close> accepts a non-empty string and throws on anything else.
  \<open>ref.set(body)\<close> replaces the document, \<open>ref.update(body)\<close> overwrites the given
  fields of an existing document and fails on a missing one, \<open>ref.delete()\<close> removes
  the document and accepts a missing one, as the client library documents them (replace,
  merge of fields and delete are the three mutations the script uses). Field
  names and document keys are taken as plain names (no field paths with dots, no
  document paths with slashes).

  A write can fail on the side of the target. The client refuses a body it cannot
  serialise, before anything is sent: one that holds \<open>undefined\<close> or an object of a class
  of its own, as the driver's identifier objects are. And the store can refuse the
  write of a document, which is what \<open>storeRefuses\<close> says. Either failure throws at the
  call, and nothing is written.
\<close>

fun firestoreDoc :: "jsval \<Rightarrow> error + string" where
  "firestoreDoc (JStr s) = (if s = [] then Inl InvalidPath else Inr s)"
| "firestoreDoc v = Inl InvalidPath"

fun bodyOf :: "jsval \<Rightarrow> (string \<Rightarrow> jsval option)" where
  "bodyOf (JObj fs) = map_of fs"
| "bodyOf v = Map.empty"

fun serializable :: "jsval \<Rightarrow> bool"
and fieldsSerializable :: "(string \<times> jsval) list \<Rightarrow> bool"
and elemsSerializable :: "jsval list \<Rightarrow> bool" where
  "serializable JUndefined = False"
| "serializable (JObjectId h) = False"
| "serializable JNull = True"
| "serializable (JBool b) = True"
| "serializable (JNum n) = True"
| "serializable (JStr s) = True"
| "serializable (JObj fs) = fieldsSerializable fs"
| "serializable (JArr xs) = elemsSerializable xs"
| "fieldsSerializable [] = True"
| "fieldsSerializable ((k, v) # fs) = (serializable v \<and> fieldsSerializable fs)"
| "elemsSerializable [] = True"
| "elemsSerializable (x # xs) = (serializable x \<and> elemsSerializable xs)"

definition refusal :: "(docref \<Rightarrow> bool) \<Rightarrow> docref \<Rightarrow> jsval \<Rightarrow> error option" where
  "refusal R ref doc =
     (if \<not> serializable doc then Some InvalidArgument
      else if R ref then Some Unavailable
      else None)"

definition refSet :: "docref \<Rightarrow> jsval \<Rightarrow> world \<Rightarrow> error + world" where
  "refSet ref doc w =
     (case refusal (storeRefuses w) ref doc of
        Some e \<Rightarrow> Inl e
      | None \<Rightarrow> Inr (w\<lparr>firestore := (firestore w)(ref \<mapsto> bodyOf doc)\<rparr>))"

definition refUpdate :: "docref \<Rightarrow> jsval \<Rightarrow> world \<Rightarrow> error + world" where
  "refUpdate ref doc w =
     (case refusal (storeRefuses w) ref doc of
        Some e \<Rightarrow> Inl e
      | None \<Rightarrow>
          (case firestore w ref of
             None \<Rightarrow> Inl NotFound
           | Some old \<Rightarrow> Inr (w\<lparr>firestore := (firestore w)(ref \<mapsto> old ++ bodyOf doc)\<rparr>)))"

definition refDelete :: "docref \<Rightarrow> world \<Rightarrow> error + world" where
  "refDelete ref w =
     (if storeRefuses w ref then Inl Unavailable
      else Inr (w\<lparr>firestore := (firestore w)(ref := None)\<rparr>))"

section \<open>Initial sync\<close>

text \<open>
  \<^verbatim>\<open>
  while (await cursor.hasNext()) {
    let doc = await cursor.next();
    doc = convertIdToString(doc);
    const ref = targetCollection.doc(doc._id);
    delete doc._id;
    await ref.set(doc);
  }
  \<close>
  The loop over the cursor; \<open>translate\<close> is its body up to the write. The loop returns
  the error that ended it, if any, together with the world it had reached: the documents
  written before the error stay written.
\<close>

definition translate :: "jsval \<Rightarrow> error + string \<times> jsval" where
  "translate doc =
     andThen (convertIdToString doc) (\<lambda>doc'.
     andThen (getField doc' ''_id'') (\<lambda>i.
     andThen (firestoreDoc i) (\<lambda>key.
     Inr (key, deleteField ''_id'' doc'))))"

fun migrateDocs :: "string \<Rightarrow> string \<Rightarrow> fetch list \<Rightarrow> world \<Rightarrow> error option \<times> world" where
  "migrateDocs tdb tcoll [] w = (None, w)"
| "migrateDocs tdb tcoll (FetchFailed # rest) w = (Some CursorError, w)"
| "migrateDocs tdb tcoll (Fetched doc # rest) w =
     (case translate doc of
        Inl e \<Rightarrow> (Some e, w)
      | Inr (key, doc') \<Rightarrow>
          (case refSet (tdb, tcoll, key) doc' w of
             Inl e \<Rightarrow> (Some e, w)
           | Inr w' \<Rightarrow> migrateDocs tdb tcoll rest w'))"

text \<open>
  \<open>migrateCollection\<close>: the whole body is inside \<open>try\<close>, and the \<open>catch\<close> prints the
  error and returns, so the function itself never throws.
\<close>

definition migrateCollection :: "string \<Rightarrow> string \<Rightarrow> collectionConfig \<Rightarrow> world \<Rightarrow> world" where
  "migrateCollection sdb tdb cc w =
     (let w1 = say (MigratingCollection sdb (sourceCollection cc) tdb (targetCollection cc)) w in
      case migrateDocs tdb (targetCollection cc) (mongo w1 (sdb, sourceCollection cc)) w1 of
        (None, w2) \<Rightarrow> say (MigrationCompleted (sourceCollection cc)) w2
      | (Some e, w2) \<Rightarrow> say (ErrorMigrating (sourceCollection cc) e) w2)"

section \<open>Checkpoint files\<close>

text \<open>
  \<open>saveResumeToken\<close> prints a failed write and returns normally. \<open>loadResumeToken\<close>
  reads and parses the file; in its \<open>catch\<close>, the error code \<open>ENOENT\<close> leads to a new
  file with a \<open>null\<close> token and to the result \<open>null\<close>, and any other error is printed
  and thrown again.
\<close>

definition saveResumeToken :: "string \<Rightarrow> jsval \<Rightarrow> world \<Rightarrow> world" where
  "saveResumeToken path tok w =
     (case writeFile path (checkpointText tok) w of
        (None, w') \<Rightarrow> w'
      | (Some e, w') \<Rightarrow> say (ErrorSavingToken path e) w')"

text \<open>The body of the \<open>try\<close>: \<open>JSON.parse(await readFile(path)).resumeToken\<close>.\<close>

definition readToken :: "world \<Rightarrow> string \<Rightarrow> error + jsval" where
  "readToken w path =
     andThen (readFile w path) (\<lambda>d.
     andThen (JSON_parse d) (\<lambda>v. getField v ''resumeToken''))"

definition loadResumeToken :: "string \<Rightarrow> world \<Rightarrow> (error + jsval) \<times> world" where
  "loadResumeToken path w =
     (case readToken w path of
        Inr tok \<Rightarrow> (Inr tok, w)
      | Inl e \<Rightarrow>
          if e = FsError ''ENOENT''
          then (Inr JNull, saveResumeToken path JNull (say (TokenFileNotFound path) w))
          else (Inl e, say (ErrorLoadingToken path e) w))"

section \<open>Live replication\<close>

text \<open>
  A change event as the listener reads it: the kind of operation, the full document
  (\<open>undefined\<close> where the event carries none, \<open>null\<close> where the lookup found none), the
  document key, and \<open>resumeTokenAfter\<close>, the value of \<open>changeStream.resumeToken\<close> once
  the event has been handed over.
\<close>

record change =
  operationType :: string
  fullDocument :: jsval
  documentKey :: jsval
  resumeTokenAfter :: jsval

text \<open>
  \<^verbatim>\<open>
  if (operationType === 'insert') {
    const ref = targetCollection.doc(fullDocument._id.toString());
    delete fullDocument._id;
    await ref.set(fullDocument);
  } else if (operationType === 'update') {
    const ref = targetCollection.doc(fullDocument._id.toString());
    delete fullDocument._id;
    await ref.update(fullDocument);
  } else if (operationType === 'delete') {
    const ref = targetCollection.doc(documentKey._id.toString());
    await ref.delete();
  }
  \<close>
  Every step that throws, the write itself included, does so without the target being
  written, so a thrown error leaves the world as it was.
\<close>

definition eventKey :: "jsval \<Rightarrow> error + string" where
  "eventKey d =
     andThen (getField d ''_id'') (\<lambda>i.
     andThen (toString i) (\<lambda>s.
     firestoreDoc (JStr s)))"

definition applyChange :: "string \<Rightarrow> string \<Rightarrow> change \<Rightarrow> world \<Rightarrow> error + world" where
  "applyChange tdb tcoll ch w =
     (if operationType ch = ''insert'' then
        andThen (eventKey (fullDocument ch)) (\<lambda>key.
        refSet (tdb, tcoll, key) (deleteField ''_id'' (fullDocument ch)) w)
      else if operationType ch = ''update'' then
        andThen (eventKey (fullDocument ch)) (\<lambda>key.
        refUpdate (tdb, tcoll, key) (deleteField ''_id'' (fullDocument ch)) w)
      else if operationType ch = ''delete'' then
        andThen (eventKey (documentKey ch)) (\<lambda>key.
        refDelete (tdb, tcoll, key) w)
      else Inr w)"

text \<open>
  The listener: apply the change, count it, and at the threshold save the token and
  reset the counter. The listener has no \<open>try\<close> of its own: an error thrown while the
  change is applied leaves the listener at once, before the counter is touched.
\<close>

definition onChange :: "pipeline \<Rightarrow> change \<Rightarrow> world \<Rightarrow> error + pipeline \<times> world" where
  "onChange p ch w =
     andThen (applyChange (targetDb p) (targetColl p) ch w) (\<lambda>w1.
       let n = changeCount p + 1 in
       if n \<ge> threshold p
       then Inr (p\<lparr>changeCount := 0\<rparr>, saveResumeToken (tokenPath p) (resumeTokenAfter ch) w1)
       else Inr (p\<lparr>changeCount := n\<rparr>, w1))"

text \<open>
  Events handed to the listener one after the other, each run of the listener ending
  before the next begins. The delivery stops at the first run that throws; what the
  runtime does with the rejected promise is not part of the script.
\<close>

fun deliver :: "change list \<Rightarrow> pipeline \<Rightarrow> world \<Rightarrow> error + pipeline \<times> world" where
  "deliver [] p w = Inr (p, w)"
| "deliver (ch # chs) p w =
     (case onChange p ch w of
        Inl e \<Rightarrow> Inl e
      | Inr (p', w') \<Rightarrow> deliver chs p' w')"

text \<open>
  \<open>startLiveReplication\<close>: print the start, open the change stream (after the resume
  token, if there is one), run the initial migration if there is no resume token, and
  attach the listener with its counter at zero. A missing argument stands for \<open>null\<close>.
\<close>

definition startLiveReplication ::
  "config \<Rightarrow> string \<Rightarrow> string \<Rightarrow> collectionConfig \<Rightarrow> jsval \<Rightarrow> string \<Rightarrow> world \<Rightarrow> world" where
  "startLiveReplication cfg sdb tdb cc resumeToken path w =
     (let tok = (if resumeToken = JUndefined then JNull else resumeToken);
          w1 = say (StartingLive sdb (sourceCollection cc) tdb (targetCollection cc)) w;
          w2 = (if \<not> truthy tok then migrateCollection sdb tdb cc (say IAmHere w1) else w1)
      in w2\<lparr>streams := streams w2 @
              [\<lparr>targetDb = tdb, targetColl = targetCollection cc, tokenPath = path,
                threshold = saveThreshold cfg,
                startAfter = (if truthy tok then Some tok else None),
                changeCount = 0\<rparr>]\<rparr>)"

section \<open>The process\<close>

text \<open>
  How a stretch of the script ends: normally, by a thrown error, or by \<open>process.exit\<close>
  with a status.
\<close>

datatype signal = Normal | Thrown error | Exit nat

definition resumeTokenFilePath :: "sourceConfig \<Rightarrow> collectionConfig \<Rightarrow> string" where
  "resumeTokenFilePath sc cc =
     ''resumeToken-'' @ database sc @ ''-'' @ sourceCollection cc @ ''.json''"

text \<open>The loop of \<open>processDatabase\<close> over the collection mappings of a database pair.\<close>

fun processCollections ::
  "config \<Rightarrow> sourceConfig \<Rightarrow> string \<Rightarrow> string \<Rightarrow> collectionConfig list \<Rightarrow> world \<Rightarrow> signal \<times> world" where
  "processCollections cfg sc tdb mode [] w = (Normal, w)"
| "processCollections cfg sc tdb mode (cc # ccs) w =
     (if mode = ''migrate'' then
        processCollections cfg sc tdb mode ccs (migrateCollection (database sc) tdb cc w)
      else if mode = ''live'' then
        (case loadResumeToken (resumeTokenFilePath sc cc) w of
           (Inl e, w1) \<Rightarrow> (Thrown e, w1)
         | (Inr tok, w1) \<Rightarrow>
             processCollections cfg sc tdb mode ccs
               (startLiveReplication cfg (database sc) tdb cc tok (resumeTokenFilePath sc cc)
                  (say (ResumeTokenFor (database sc) (sourceCollection cc) tok) w1)))
      else (Exit 1, say (InvalidMode mode) w))"

text \<open>
  \<open>processDatabase\<close>: an error thrown in the loop is printed by the \<open>catch\<close>; in
  \<open>migrate\<close> mode the connection is closed afterwards. The result is the exit status,
  if the process has exited, and the world. The connection to the source is taken to
  succeed; a failed one would be printed by the same \<open>catch\<close>.
\<close>

definition closeIfMigrate :: "sourceConfig \<Rightarrow> string \<Rightarrow> world \<Rightarrow> world" where
  "closeIfMigrate sc mode w =
     (if mode = ''migrate'' then say (ConnectionClosed (database sc)) w else w)"

definition processDatabase ::
  "config \<Rightarrow> sourceConfig \<Rightarrow> targetConfig \<Rightarrow> string \<Rightarrow> world \<Rightarrow> nat option \<times> world" where
  "processDatabase cfg sc tc mode w =
     (case processCollections cfg sc (databaseId tc) mode (collections tc) w of
        (Exit c, w1) \<Rightarrow> (Some c, w1)
      | (Thrown e, w1) \<Rightarrow>
          (None, closeIfMigrate sc mode (say (ErrorProcessingDatabase (database sc) e) w1))
      | (Normal, w1) \<Rightarrow> (None, closeIfMigrate sc mode w1))"

fun processPairs :: "config \<Rightarrow> string \<Rightarrow> databasePair list \<Rightarrow> world \<Rightarrow> nat option \<times> world" where
  "processPairs cfg mode [] w = (None, w)"
| "processPairs cfg mode (dp # dps) w =
     (case processDatabase cfg (source dp) (target dp) mode w of
        (Some c, w1) \<Rightarrow> (Some c, w1)
      | (None, w1) \<Rightarrow> processPairs cfg mode dps w1)"

text \<open>
  \<^verbatim>\<open>
  if (!['migrate', 'live'].includes(mode)) {
    console.error(`Invalid mode: ...`);
    process.exit(1);
  }
  for (const databasePair of config.databasePairs) {
    await processDatabase(databasePair.source, databasePair.target, mode);
  }
  \<close>
\<close>

definition startProcess :: "config \<Rightarrow> string \<Rightarrow> world \<Rightarrow> nat option \<times> world" where
  "startProcess cfg mode w =
     (if mode \<notin> set [''migrate'', ''live'']
      then (Some 1, say (InvalidMode mode) w)
      else processPairs cfg mode (databasePairs cfg) w)"

text \<open>
  \<^verbatim>\<open>
  const mode = process.argv[2] || 'migrate';
  startProcess(mode);
  \<close>
  The argument is absent or a string; an absent and an empty one are falsy.
\<close>

definition runScript :: "config \<Rightarrow> string option \<Rightarrow> world \<Rightarrow> nat option \<times> world" where
  "runScript cfg arg w =
     startProcess cfg
       (case arg of None \<Rightarrow> ''migrate'' | Some a \<Rightarrow> if a = [] then ''migrate'' else a) w"

section \<open>Notions used in the statements\<close>

text \<open>
  \<open>migrateAll\<close> is the loop of \<open>processDatabase\<close> in \<open>migrate\<close> mode: one call of
  \<open>migrateCollection\<close> per mapping, in the configured order. \<open>migratePair\<close> is what
  \<open>processDatabase\<close> does for a database pair in that mode: the loop, then the line
  about the closed connection.
\<close>

definition migrateAll :: "string \<Rightarrow> string \<Rightarrow> collectionConfig list \<Rightarrow> world \<Rightarrow> world" where
  "migrateAll sdb tdb ccs w = foldl (\<lambda>w' cc. migrateCollection sdb tdb cc w') w ccs"

definition migratePair :: "databasePair \<Rightarrow> world \<Rightarrow> world" where
  "migratePair dp w =
     say (ConnectionClosed (database (source dp)))
       (migrateAll (database (source dp)) (databaseId (target dp)) (collections (target dp)) w)"

text \<open>
  \<open>scanError\<close> is the error that ends the scan of a source collection, if any, and
  \<open>scanWrites\<close> lists the documents the scan writes before it ends: the two components
  of what \<open>migrateDocs\<close> does, as functions of the documents fetched and of what the store
  refuses. \<open>syncOutcome\<close> is the line \<open>migrateCollection\<close> prints last for a mapping,
  \<open>copied\<close> the documents it writes, and \<open>runWrites\<close> the documents of all mappings of
  all database pairs, in the configured order. \<open>putAll\<close> writes a list of documents
  to the target, one after the other.
\<close>

fun scanError :: "(docref \<Rightarrow> bool) \<Rightarrow> string \<Rightarrow> string \<Rightarrow> fetch list \<Rightarrow> error option" where
  "scanError R tdb tcoll [] = None"
| "scanError R tdb tcoll (FetchFailed # rest) = Some CursorError"
| "scanError R tdb tcoll (Fetched doc # rest) =
     (case translate doc of
        Inl e \<Rightarrow> Some e
      | Inr (key, doc') \<Rightarrow>
          (case refusal R (tdb, tcoll, key) doc' of
             Some e \<Rightarrow> Some e
           | None \<Rightarrow> scanError R tdb tcoll rest))"

fun scanWrites ::
  "(docref \<Rightarrow> bool) \<Rightarrow> string \<Rightarrow> string \<Rightarrow> fetch list \<Rightarrow> (docref \<times> (string \<Rightarrow> jsval option)) list" where
  "scanWrites R tdb tcoll [] = []"
| "scanWrites R tdb tcoll (FetchFailed # rest) = []"
| "scanWrites R tdb tcoll (Fetched doc # rest) =
     (case translate doc of
        Inl e \<Rightarrow> []
      | Inr (key, doc') \<Rightarrow>
          (case refusal R (tdb, tcoll, key) doc' of
             Some e \<Rightarrow> []
           | None \<Rightarrow> ((tdb, tcoll, key), bodyOf doc') # scanWrites R tdb tcoll rest))"

definition syncOutcome :: "string \<Rightarrow> string \<Rightarrow> collectionConfig \<Rightarrow> world \<Rightarrow> logline" where
  "syncOutcome sdb tdb cc w =
     (case scanError (storeRefuses w) tdb (targetCollection cc) (mongo w (sdb, sourceCollection cc)) of
        None \<Rightarrow> MigrationCompleted (sourceCollection cc)
      | Some e \<Rightarrow> ErrorMigrating (sourceCollection cc) e)"

definition copied ::
  "string \<Rightarrow> string \<Rightarrow> collectionConfig \<Rightarrow> world \<Rightarrow> (docref \<times> (string \<Rightarrow> jsval option)) list" where
  "copied sdb tdb cc w =
     scanWrites (storeRefuses w) tdb (targetCollection cc) (mongo w (sdb, sourceCollection cc))"

definition runWrites :: "config \<Rightarrow> world \<Rightarrow> (docref \<times> (string \<Rightarrow> jsval option)) list" where
  "runWrites cfg w =
     concat (map (\<lambda>dp. concat (map (\<lambda>cc. copied (database (source dp)) (databaseId (target dp)) cc w)
                                  (collections (target dp))))
                 (databasePairs cfg))"

definition putAll ::
  "(docref \<times> (string \<Rightarrow> jsval option)) list \<Rightarrow> (docref \<Rightarrow> (string \<Rightarrow> jsval option) option)
     \<Rightarrow> (docref \<Rightarrow> (string \<Rightarrow> jsval option) option)" where
  "putAll ws F = foldl (\<lambda>F' (r, b). F'(r \<mapsto> b)) F ws"

text \<open>
  \<open>control w\<close> is the part of the world that steers a run and that a run leaves behind
  for the next one: the checkpoint files, the listeners attached, and the writes made
  to files. The source collections, the target, what the store refuses and the console
  are not part of it.
\<close>

definition control :: "world \<Rightarrow> (string \<Rightarrow> fnode) \<times> (string \<Rightarrow> bool) \<times> (string \<times> filedata) list \<times> pipeline list" where
  "control w = (files w, writeFails w, writeFileCalls w, streams w)"

text \<open>
  \<open>everyNth N xs\<close> lists the elements of \<open>xs\<close> at the positions \<open>N\<close>, \<open>2N\<close>, \<open>3N\<close>, ...
  (counting from one); \<open>due N c xs\<close> does so for a count that starts at \<open>c\<close>.
  \<open>idsStringified v\<close> holds when every property named \<open>_id\<close>, at any depth of \<open>v\<close>,
  holds a string.
\<close>

definition due :: "nat \<Rightarrow> nat \<Rightarrow> 'a list \<Rightarrow> 'a list" where
  "due N c xs = map (\<lambda>i. xs ! i) (filter (\<lambda>i. N dvd c + i + 1) [0..<length xs])"

definition everyNth :: "nat \<Rightarrow> 'a list \<Rightarrow> 'a list" where
  "everyNth N xs = map (\<lambda>i. xs ! i) (filter (\<lambda>i. N dvd i + 1) [0..<length xs])"

fun isStr :: "jsval \<Rightarrow> bool" where
  "isStr (JStr s) = True"
| "isStr v = False"

fun idsStringified :: "jsval \<Rightarrow> bool"
and fieldsStringified :: "(string \<times> jsval) list \<Rightarrow> bool"
and elemsStringified :: "jsval list \<Rightarrow> bool" where
  "idsStringified (JObj fs) = fieldsStringified fs"
| "idsStringified (JArr xs) = elemsStringified xs"
| "idsStringified JUndefined = True"
| "idsStringified JNull = True"
| "idsStringified (JBool b) = True"
| "idsStringified (JNum n) = True"
| "idsStringified (JStr s) = True"
| "idsStringified (JObjectId h) = True"
| "fieldsStringified [] = True"
| "fieldsStringified ((k, v) # fs) =
     ((if k = ''_id'' then isStr v else idsStringified v) \<and> fieldsStringified fs)"
| "elemsStringified [] = True"
| "elemsStringified (x # xs) = (idsStringified x \<and> elemsStringified xs)"

section \<open>A small installation\<close>

text \<open>
  One database pair with two mappings, and a threshold of three changes. The source
  collection \<open>orders\<close> holds a document with a nested \<open>_id\<close> that is \<open>null\<close>, on which
  the translation throws; the source collection \<open>users\<close> holds two sound documents.
  The target is empty and there is no checkpoint file. The theorems below are
  instantiated on this installation.
\<close>

definition ordersMapping :: collectionConfig where
  "ordersMapping = \<lparr>sourceCollection = ''orders'', targetCollection = ''orders''\<rparr>"

definition usersMapping :: collectionConfig where
  "usersMapping = \<lparr>sourceCollection = ''users'', targetCollection = ''people''\<rparr>"

definition demoPair :: databasePair where
  "demoPair =
     \<lparr>source = \<lparr>connectionString = ''mongodb://localhost:27017'', database = ''shop''\<rparr>,
      target = \<lparr>projectId = ''demo'', databaseId = ''(default)'',
                collections = [ordersMapping, usersMapping]\<rparr>\<rparr>"

definition demoConfig :: config where
  "demoConfig = \<lparr>databasePairs = [demoPair], saveThreshold = 3\<rparr>"

definition demoWorld :: world where
  "demoWorld =
     \<lparr>mongo = (\<lambda>c. if c = (''shop'', ''users'')
                     then [Fetched (JObj [(''_id'', JNum 1), (''name'', JStr ''a'')]),
                           Fetched (JObj [(''_id'', JNum 2), (''name'', JStr ''b'')])]
                     else if c = (''shop'', ''orders'')
                     then [Fetched (JObj [(''_id'', JNum 7),
                                          (''customer'', JObj [(''_id'', JNull)])])]
                     else []),
      firestore = Map.empty,
      storeRefuses = (\<lambda>r. False),
      files = (\<lambda>p. Absent),
      writeFails = (\<lambda>p. False),
      console = [],
      writeFileCalls = [],
      streams = []\<rparr>"

text \<open>
  \<open>lockedWorld\<close>: every checkpoint file exists and cannot be read. \<open>liveWorld\<close>: the
  installation once a first \<open>live\<close> run has started its pipelines. \<open>restartWorld\<close>: the
  same after that process has ended and before it is started again; the files and the
  target are as the first run left them. \<open>resumedWorld\<close>: a checkpoint file for
  \<open>users\<close> that holds a saved position.
\<close>

definition lockedWorld :: world where
  "lockedWorld = demoWorld\<lparr>files := (\<lambda>p. Unreadable ''EACCES'')\<rparr>"

definition liveWorld :: world where
  "liveWorld = snd (startProcess demoConfig ''live'' demoWorld)"

definition restartWorld :: world where
  "restartWorld = liveWorld\<lparr>console := [], streams := []\<rparr>"

definition resumedWorld :: world where
  "resumedWorld =
     demoWorld\<lparr>files := (\<lambda>p. if p = ''resumeToken-shop-users.json''
                              then Content (Json (JObj [(''resumeToken'', JObj [(''_data'', JStr ''8265A1'')])]))
                              else Absent)\<rparr>"

text \<open>
  A listener as \<open>startLiveReplication\<close> attaches it for \<open>users\<close>, and change events
  for it: an insert, an update and a delete of the document with identifier 1, an insert
  whose full document has no \<open>_id\<close>, an update whose full document was not found, and an
  insert whose full document holds a nested \<open>_id\<close>. \<open>syncedWorld\<close> has the document
  \<open>1\<close> in the target, with a field \<open>age\<close> besides the \<open>name\<close>.
\<close>

definition demoPipeline :: pipeline where
  "demoPipeline =
     \<lparr>targetDb = ''(default)'', targetColl = ''people'',
      tokenPath = ''resumeToken-shop-users.json'', threshold = 3,
      startAfter = None, changeCount = 0\<rparr>"

definition insertEv :: change where
  "insertEv =
     \<lparr>operationType = ''insert'',
      fullDocument = JObj [(''_id'', JNum 1), (''name'', JStr ''a'')],
      documentKey = JObj [(''_id'', JNum 1)],
      resumeTokenAfter = JObj [(''_data'', JStr ''01'')]\<rparr>"

definition updateEv :: change where
  "updateEv =
     \<lparr>operationType = ''update'',
      fullDocument = JObj [(''_id'', JNum 1), (''name'', JStr ''b'')],
      documentKey = JObj [(''_id'', JNum 1)],
      resumeTokenAfter = JObj [(''_data'', JStr ''02'')]\<rparr>"

definition deleteEv :: change where
  "deleteEv =
     \<lparr>operationType = ''delete'',
      fullDocument = JUndefined,
      documentKey = JObj [(''_id'', JNum 1)],
      resumeTokenAfter = JObj [(''_data'', JStr ''03'')]\<rparr>"

definition malformedEv :: change where
  "malformedEv =
     \<lparr>operationType = ''insert'',
      fullDocument = JObj [(''name'', JStr ''x'')],
      documentKey = JObj [(''_id'', JNum 4)],
      resumeTokenAfter = JObj [(''_data'', JStr ''04'')]\<rparr>"

definition lostUpdateEv :: change where
  "lostUpdateEv =
     \<lparr>operationType = ''update'',
      fullDocument = JNull,
      documentKey = JObj [(''_id'', JNum 5)],
      resumeTokenAfter = JObj [(''_data'', JStr ''06'')]\<rparr>"

definition nestedEv :: change where
  "nestedEv =
     \<lparr>operationType = ''insert'',
      fullDocument = JObj [(''_id'', JObjectId ''65f1c0ffee''), (''owner'', JObj [(''_id'', JNum 7)])],
      documentKey = JObj [(''_id'', JObjectId ''65f1c0ffee'')],
      resumeTokenAfter = JObj [(''_data'', JStr ''05'')]\<rparr>"

definition syncedWorld :: world where
  "syncedWorld =
     demoWorld\<lparr>firestore :=
       [(''(default)'', ''people'', ''1'') \<mapsto> map_of [(''name'', JStr ''a''), (''age'', JNum 30)]]\<rparr>"

section \<open>Properties\<close>

subsection \<open>The mode selector\<close>

text \<open>
  C7, as the script has it. A non-empty mode argument other than \<open>migrate\<close> and \<open>live\<close>
  makes the process exit with status 1 at once: the only effect is the line printed
  about the invalid mode. No collection is migrated, no checkpoint file is read or
  written, and no change stream is opened. The check is made by \<open>startProcess\<close> on the
  mode it receives, and the loop of \<open>processDatabase\<close> has the same guard: with such a
  mode it exits at the first mapping, before anything is done for it. An empty argument
  never reaches the check: it stands for \<open>migrate\<close>, as an absent one does.
\<close>

theorem invalid_mode_exits:
  "(a \<noteq> [] \<and> a \<noteq> ''migrate'' \<and> a \<noteq> ''live'' \<longrightarrow>
      runScript cfg (Some a) w = (Some 1, w\<lparr>console := console w @ [InvalidMode a]\<rparr>)) \<and>
   (mode \<noteq> ''migrate'' \<and> mode \<noteq> ''live'' \<longrightarrow>
      startProcess cfg mode w = (Some 1, w\<lparr>console := console w @ [InvalidMode mode]\<rparr>) \<and>
      processCollections cfg sc tdb mode (cc # ccs) w =
        (Exit 1, w\<lparr>console := console w @ [InvalidMode mode]\<rparr>)) \<and>
   runScript cfg (Some []) w = startProcess cfg ''migrate'' w"
  by (simp add: runScript_def startProcess_def say_def)

theorem invalid_mode_exits_witness:
  "''sync'' \<noteq> [] \<and> ''sync'' \<noteq> ''migrate'' \<and> ''sync'' \<noteq> ''live'' \<and>
   runScript demoConfig (Some ''sync'') demoWorld =
     (Some 1, demoWorld\<lparr>console := console demoWorld @ [InvalidMode ''sync'']\<rparr>) \<and>
   startProcess demoConfig ''sync'' demoWorld =
     (Some 1, demoWorld\<lparr>console := console demoWorld @ [InvalidMode ''sync'']\<rparr>)"
  using invalid_mode_exits [of "''sync''" demoConfig demoWorld "''sync''"] by simp

subsection \<open>One-shot migration\<close>

lemma processCollections_migrate:
  "processCollections cfg sc tdb ''migrate'' ccs w = (Normal, migrateAll (database sc) tdb ccs w)"
  by (induction ccs arbitrary: w) (simp_all add: migrateAll_def)

lemma processDatabase_migrate:
  "processDatabase cfg (source dp) (target dp) ''migrate'' w = (None, migratePair dp w)"
  by (simp add: processDatabase_def processCollections_migrate closeIfMigrate_def migratePair_def)

lemma processPairs_migrate:
  "processPairs cfg ''migrate'' dps w = (None, foldl (\<lambda>w' dp. migratePair dp w') w dps)"
  by (induction dps arbitrary: w) (simp_all add: processDatabase_migrate)

lemma startProcess_migrate:
  "startProcess cfg ''migrate'' w = (None, foldl (\<lambda>w' dp. migratePair dp w') w (databasePairs cfg))"
  by (simp add: startProcess_def processPairs_migrate)

lemma putAll_Nil: "putAll [] F = F"
  by (simp add: putAll_def)

lemma putAll_Cons: "putAll ((r, b) # ws) F = putAll ws (F(r \<mapsto> b))"
  by (simp add: putAll_def)

lemma putAll_append: "putAll (ws @ vs) F = putAll vs (putAll ws F)"
  by (simp add: putAll_def)


text \<open>What the loop over the cursor does, in one equation.\<close>

lemma migrateDocs_effect:
  "migrateDocs tdb tc fs w =
     (scanError (storeRefuses w) tdb tc fs,
      w\<lparr>firestore := putAll (scanWrites (storeRefuses w) tdb tc fs) (firestore w)\<rparr>)"
proof (induction fs arbitrary: w)
  case Nil
  show ?case by (simp add: putAll_Nil)
next
  case (Cons f fs)
  show ?case
  proof (cases f)
    case FetchFailed
    then show ?thesis by (simp add: putAll_Nil)
  next
    case (Fetched doc)
    show ?thesis
    proof (cases "translate doc")
      case (Inl e)
      with Fetched show ?thesis by (simp add: putAll_Nil)
    next
      case (Inr kd)
      obtain key doc' where kd: "kd = (key, doc')" by (cases kd)
      show ?thesis
      proof (cases "refusal (storeRefuses w) (tdb, tc, key) doc'")
        case (Some e)
        with Fetched Inr kd show ?thesis by (simp add: refSet_def putAll_Nil)
      next
        case None
        let ?w' = "w\<lparr>firestore := (firestore w)((tdb, tc, key) \<mapsto> bodyOf doc')\<rparr>"
        have "migrateDocs tdb tc (f # fs) w = migrateDocs tdb tc fs ?w'"
          using Fetched Inr kd None by (simp add: refSet_def)
        also have "\<dots> = (scanError (storeRefuses ?w') tdb tc fs,
                         ?w'\<lparr>firestore := putAll (scanWrites (storeRefuses ?w') tdb tc fs)
                                                (firestore ?w')\<rparr>)"
          by (rule Cons.IH)
        also have "\<dots> = (scanError (storeRefuses w) tdb tc (f # fs),
                         w\<lparr>firestore := putAll (scanWrites (storeRefuses w) tdb tc (f # fs))
                                              (firestore w)\<rparr>)"
          using Fetched Inr kd None by (simp add: putAll_Cons)
        finally show ?thesis .
      qed
    qed
  qed
qed

lemma migrateDocs_fst: "fst (migrateDocs tdb tc fs w) = scanError (storeRefuses w) tdb tc fs"
  by (simp add: migrateDocs_effect)

lemma sync_say:
  "syncOutcome sdb tdb cc (say l w) = syncOutcome sdb tdb cc w"
  "copied sdb tdb cc (say l w) = copied sdb tdb cc w"
  by (simp_all add: syncOutcome_def copied_def say_def)

lemma sync_cong:
  assumes "mongo w' = mongo w" and "storeRefuses w' = storeRefuses w"
  shows "syncOutcome sdb tdb cc w' = syncOutcome sdb tdb cc w"
    and "copied sdb tdb cc w' = copied sdb tdb cc w"
  using assms by (simp_all add: syncOutcome_def copied_def)

text \<open>What \<open>migrateCollection\<close> does, in one equation: two lines and the documents copied.\<close>

lemma migrateCollection_effect:
  "migrateCollection sdb tdb cc w =
     w\<lparr>firestore := putAll (copied sdb tdb cc w) (firestore w),
       console := console w @
         [MigratingCollection sdb (sourceCollection cc) tdb (targetCollection cc),
          syncOutcome sdb tdb cc w]\<rparr>"
  by (simp add: migrateCollection_def Let_def migrateDocs_effect syncOutcome_def copied_def
        say_def split: option.splits)

lemma migrateCollection_console:
  "console (migrateCollection sdb tdb cc w) =
     console w @ [MigratingCollection sdb (sourceCollection cc) tdb (targetCollection cc),
                  syncOutcome sdb tdb cc w]"
  by (simp add: migrateCollection_effect)

lemma migrateCollection_firestore:
  "firestore (migrateCollection sdb tdb cc w) = putAll (copied sdb tdb cc w) (firestore w)"
  by (simp add: migrateCollection_effect)

lemma migrateCollection_mongo:
  "mongo (migrateCollection sdb tdb cc w) = mongo w"
  "storeRefuses (migrateCollection sdb tdb cc w) = storeRefuses w"
  by (simp_all add: migrateCollection_effect)

lemma migrateAll_mongo:
  "mongo (migrateAll sdb tdb ccs w) = mongo w \<and>
   storeRefuses (migrateAll sdb tdb ccs w) = storeRefuses w"
  by (induction ccs arbitrary: w) (simp_all add: migrateAll_def migrateCollection_mongo)



lemma migrateAll_firestore:
  "firestore (migrateAll sdb tdb ccs w) =
     putAll (concat (map (\<lambda>cc. copied sdb tdb cc w) ccs)) (firestore w)"
proof (induction ccs arbitrary: w)
  case Nil
  show ?case by (simp add: migrateAll_def putAll_Nil)
next
  case (Cons c ccs)
  let ?w1 = "migrateCollection sdb tdb c w"
  have "migrateAll sdb tdb (c # ccs) w = migrateAll sdb tdb ccs ?w1"
    by (simp add: migrateAll_def)
  with Cons.IH [of ?w1] show ?case
    by (simp add: sync_cong(2) [OF migrateCollection_mongo] migrateCollection_firestore
          putAll_append)
qed

lemma migratePair_mongo:
  "mongo (migratePair dp w) = mongo w"
  "storeRefuses (migratePair dp w) = storeRefuses w"
  by (simp_all add: migratePair_def say_def migrateAll_mongo)


lemma migratePair_firestore:
  "firestore (migratePair dp w) =
     putAll (concat (map (\<lambda>cc. copied (database (source dp)) (databaseId (target dp)) cc w)
                       (collections (target dp)))) (firestore w)"
  by (simp add: migratePair_def say_def migrateAll_firestore)



lemma migratePairs_firestore:
  "firestore (foldl (\<lambda>w' dp. migratePair dp w') w dps) =
     putAll (concat (map (\<lambda>dp. concat (map (\<lambda>cc. copied (database (source dp))
                                                   (databaseId (target dp)) cc w)
                                             (collections (target dp)))) dps))
            (firestore w)"
proof (induction dps arbitrary: w)
  case Nil
  show ?case by (simp add: putAll_Nil)
next
  case (Cons d dps)
  from Cons.IH [of "migratePair d w"] show ?case
    by (simp add: sync_cong(2) [OF migratePair_mongo] migratePair_firestore putAll_append)
qed


lemma scan_complete_length:
  "scanError R tdb tc fs = None \<Longrightarrow> length (scanWrites R tdb tc fs) = length fs"
  by (induction R tdb tc fs rule: scanError.induct) (auto split: sum.splits option.splits)

text \<open>
  A body that holds an identifier object outside \<open>_id\<close> is refused by the client, and
  the refusal ends the scan like any other error.
\<close>

lemma unserializable_body_ends_scan:
  "scanError R tdb tc [Fetched (JObj [(''_id'', JNum 1), (''owner'', JObjectId h)])] =
     Some InvalidArgument"
  by (simp add: translate_def andThen_def showInt_def digits.simps refusal_def)

subsection \<open>What a failed initial sync does not touch\<close>


lemma control_migrateDocs: "control (snd (migrateDocs tdb tc fs w)) = control w"
  by (simp add: migrateDocs_effect control_def)










lemma migrate_run_firestore:
  "firestore (snd (startProcess cfg ''migrate'' w)) = putAll (runWrites cfg w) (firestore w)"
  by (simp add: startProcess_migrate migratePairs_firestore runWrites_def)


lemma demo_runWrites:
  "runWrites demoConfig demoWorld =
     [((''(default)'', ''people'', ''1''), map_of [(''name'', JStr ''a'')]),
      ((''(default)'', ''people'', ''2''), map_of [(''name'', JStr ''b'')])]"
  by (simp add: runWrites_def copied_def demoConfig_def demoPair_def ordersMapping_def
        usersMapping_def demoWorld_def translate_def andThen_def showInt_def digits.simps
        refusal_def)


text \<open>
  A non-empty argument reaches \<open>startProcess\<close> as it is; an empty one is falsy and
  stands for \<open>migrate\<close>, like an absent one.
\<close>

lemma runScript_argument:
  "runScript cfg (Some a) w = startProcess cfg (if a = [] then ''migrate'' else a) w"
  by (simp add: runScript_def)

text \<open>
  C10. Started without a mode argument, the script calls \<open>startProcess\<close> with
  \<open>migrate\<close>: the process does not exit with an error status, and every mapping of
  every database pair is migrated, in the configured order.
\<close>

theorem no_argument_runs_migrate:
  "runScript cfg None w = startProcess cfg ''migrate'' w \<and>
   runScript cfg None w = (None, foldl (\<lambda>w' dp. migratePair dp w') w (databasePairs cfg))"
  by (simp add: runScript_def startProcess_migrate)

theorem no_argument_runs_migrate_witness:
  "fst (runScript demoConfig None demoWorld) = None \<and>
   console (snd (runScript demoConfig None demoWorld)) =
     [MigratingCollection ''shop'' ''orders'' ''(default)'' ''orders'',
      ErrorMigrating ''orders'' TypeError,
      MigratingCollection ''shop'' ''users'' ''(default)'' ''people'',
      MigrationCompleted ''users'',
      ConnectionClosed ''shop'']"
proof -
  have r: "runScript demoConfig None demoWorld =
             (None, foldl (\<lambda>w' dp. migratePair dp w') demoWorld (databasePairs demoConfig))"
    by (rule no_argument_runs_migrate [THEN conjunct2])
  have so: "syncOutcome ''shop'' ''(default)'' ordersMapping demoWorld =
              ErrorMigrating ''orders'' TypeError"
    by (simp add: syncOutcome_def ordersMapping_def demoWorld_def translate_def andThen_def)
  have su: "syncOutcome ''shop'' ''(default)'' usersMapping demoWorld = MigrationCompleted ''users''"
    by (simp add: syncOutcome_def usersMapping_def demoWorld_def translate_def
          andThen_def showInt_def digits.simps refusal_def)
  show ?thesis
    unfolding r
    by (simp add: demoConfig_def demoPair_def migratePair_def migrateAll_def say_def
          migrateCollection_console sync_cong(1) [OF migrateCollection_mongo] so su)
       (simp add: ordersMapping_def usersMapping_def demoWorld_def)
qed

text \<open>
  C7 as stated fails at the empty argument: it is neither \<open>migrate\<close> nor \<open>live\<close>, and
  the process does not exit but migrates every mapping.
\<close>

theorem empty_argument_runs_migrate:
  "([] :: string) \<noteq> ''migrate'' \<and> ([] :: string) \<noteq> ''live'' \<and>
   fst (runScript demoConfig (Some []) demoWorld) = None \<and>
   MigratingCollection ''shop'' ''users'' ''(default)'' ''people''
     \<in> set (console (snd (runScript demoConfig (Some []) demoWorld))) \<and>
   firestore (snd (runScript demoConfig (Some []) demoWorld)) (''(default)'', ''people'', ''1'') =
     Some (map_of [(''name'', JStr ''a'')])"
proof -
  have r: "runScript demoConfig (Some []) demoWorld = startProcess demoConfig ''migrate'' demoWorld"
    by (simp add: runScript_def)
  have f: "firestore (snd (startProcess demoConfig ''migrate'' demoWorld)) (''(default)'', ''people'', ''1'') =
             Some (map_of [(''name'', JStr ''a'')])"
    by (simp add: migrate_run_firestore demo_runWrites putAll_Cons putAll_Nil)
  have c: "MigratingCollection ''shop'' ''users'' ''(default)'' ''people''
             \<in> set (console (snd (startProcess demoConfig ''migrate'' demoWorld)))"
    by (simp add: startProcess_migrate demoConfig_def demoPair_def migratePair_def migrateAll_def
          say_def migrateCollection_console)
       (simp add: usersMapping_def)
  have n: "fst (startProcess demoConfig ''migrate'' demoWorld) = None"
    by (simp add: startProcess_migrate)
  show ?thesis by (simp add: r f c n)
qed

subsection \<open>Checkpoint files\<close>

lemma saveResumeToken_files:
  "files (saveResumeToken path tok w) =
     (if writeFails w path then files w else (files w)(path := Content (checkpointText tok)))"
  by (simp add: saveResumeToken_def writeFile_def say_def)

lemma saveResumeToken_calls:
  "writeFileCalls (saveResumeToken path tok w) = writeFileCalls w @ [(path, checkpointText tok)]"
  by (simp add: saveResumeToken_def writeFile_def say_def)

text \<open>
  C9. Loading the checkpoint of a mapping whose file does not exist returns \<open>null\<close> and
  writes the placeholder \<open>{ resumeToken: null }\<close> to the file: after the call the file
  holds the placeholder (unless the file system rejects the write, which
  \<open>saveResumeToken\<close> prints and swallows). Any other error of the load, be it from
  reading, from parsing or from the property access, is printed and thrown to the
  caller, and no file is written.
\<close>

theorem loadResumeToken_placeholder:
  "(files w path = Absent \<longrightarrow>
      fst (loadResumeToken path w) = Inr JNull \<and>
      writeFileCalls (snd (loadResumeToken path w)) =
        writeFileCalls w @ [(path, checkpointText JNull)] \<and>
      files (snd (loadResumeToken path w)) path =
        (if writeFails w path then Absent else Content (Json (JObj [(''resumeToken'', JNull)])))) \<and>
   (readToken w path = Inl e \<and> e \<noteq> FsError ''ENOENT'' \<longrightarrow>
      loadResumeToken path w = (Inl e, w\<lparr>console := console w @ [ErrorLoadingToken path e]\<rparr>))"
  by (simp add: loadResumeToken_def readToken_def readFile_def andThen_def say_def
        saveResumeToken_files saveResumeToken_calls checkpointText_def)

theorem loadResumeToken_placeholder_witness:
  "files demoWorld ''resumeToken-shop-users.json'' = Absent \<and>
   fst (loadResumeToken ''resumeToken-shop-users.json'' demoWorld) = Inr JNull \<and>
   files (snd (loadResumeToken ''resumeToken-shop-users.json'' demoWorld))
     ''resumeToken-shop-users.json'' = Content (Json (JObj [(''resumeToken'', JNull)])) \<and>
   readToken lockedWorld ''resumeToken-shop-users.json'' = Inl (FsError ''EACCES'') \<and>
   FsError ''EACCES'' \<noteq> FsError ''ENOENT'' \<and>
   fst (loadResumeToken ''resumeToken-shop-users.json'' lockedWorld) = Inl (FsError ''EACCES'') \<and>
   files (snd (loadResumeToken ''resumeToken-shop-users.json'' lockedWorld)) = files lockedWorld"
proof -
  have a: "files demoWorld ''resumeToken-shop-users.json'' = Absent"
    and f: "\<not> writeFails demoWorld ''resumeToken-shop-users.json''"
    by (simp_all add: demoWorld_def)
  have r: "readToken lockedWorld ''resumeToken-shop-users.json'' = Inl (FsError ''EACCES'')"
    by (simp add: readToken_def readFile_def lockedWorld_def andThen_def)
  have n: "FsError ''EACCES'' \<noteq> FsError ''ENOENT''" by simp
  from loadResumeToken_placeholder [of demoWorld "''resumeToken-shop-users.json''"] a f
  have 1: "fst (loadResumeToken ''resumeToken-shop-users.json'' demoWorld) = Inr JNull \<and>
           files (snd (loadResumeToken ''resumeToken-shop-users.json'' demoWorld))
             ''resumeToken-shop-users.json'' = Content (Json (JObj [(''resumeToken'', JNull)]))"
    by simp
  from loadResumeToken_placeholder [of lockedWorld "''resumeToken-shop-users.json''" "FsError ''EACCES''"] r n
  have 2: "loadResumeToken ''resumeToken-shop-users.json'' lockedWorld =
             (Inl (FsError ''EACCES''),
              lockedWorld\<lparr>console := console lockedWorld @
                 [ErrorLoadingToken ''resumeToken-shop-users.json'' (FsError ''EACCES'')]\<rparr>)"
    by blast
  show ?thesis using a r n 1 by (simp add: 2)
qed

subsection \<open>Initial sync at the start of live replication\<close>

lemma truthy_default: "truthy (if tok = JUndefined then JNull else tok) = truthy tok"
  by (cases tok) simp_all

lemmas run_defs =
  startProcess_def processDatabase_def closeIfMigrate_def resumeTokenFilePath_def
  loadResumeToken_def readToken_def readFile_def JSON_parse_def saveResumeToken_def
  writeFile_def checkpointText_def startLiveReplication_def migrateCollection_def
  translate_def andThen_def refSet_def refusal_def say_def showInt_def digits.simps Let_def

lemmas demo_defs = demoConfig_def demoPair_def ordersMapping_def usersMapping_def demoWorld_def

lemma first_live_run_files:
  "files liveWorld ''resumeToken-shop-users.json'' =
     Content (Json (JObj [(''resumeToken'', JNull)]))"
  by (simp add: liveWorld_def run_defs demo_defs)

lemma demo_storeRefuses:
  "storeRefuses demoWorld r = False"
  "storeRefuses syncedWorld r = False"
  "storeRefuses liveWorld r = False"
  by (simp_all add: syncedWorld_def liveWorld_def run_defs demo_defs)

text \<open>
  C1, as the script has it. In \<open>live\<close> mode, when the checkpoint file of a mapping holds
  a record, the start of the mapping's pipeline skips the initial sync exactly when the
  saved position is truthy: then only the two start lines are printed and the target is
  left as it is. With a falsy position, and so with the placeholder whose position is
  \<open>null\<close>, the collection is copied again. In \<open>migrate\<close> mode the checkpoint file is not
  read, and the collection is copied at every start whatever the file holds.
\<close>

theorem initial_sync_iff_no_token:
  assumes "files w (resumeTokenFilePath sc cc) = Content (Json (JObj [(''resumeToken'', tok)]))"
  shows "(truthy tok \<longrightarrow>
            console (snd (processCollections cfg sc tdb ''live'' [cc] w)) =
              console w @ [ResumeTokenFor (database sc) (sourceCollection cc) tok,
                           StartingLive (database sc) (sourceCollection cc) tdb (targetCollection cc)] \<and>
            firestore (snd (processCollections cfg sc tdb ''live'' [cc] w)) = firestore w) \<and>
         (\<not> truthy tok \<longrightarrow>
            console (snd (processCollections cfg sc tdb ''live'' [cc] w)) =
              console w @ [ResumeTokenFor (database sc) (sourceCollection cc) tok,
                           StartingLive (database sc) (sourceCollection cc) tdb (targetCollection cc),
                           IAmHere,
                           MigratingCollection (database sc) (sourceCollection cc) tdb (targetCollection cc),
                           syncOutcome (database sc) tdb cc w] \<and>
            firestore (snd (processCollections cfg sc tdb ''live'' [cc] w)) =
              putAll (copied (database sc) tdb cc w) (firestore w)) \<and>
         console (snd (processCollections cfg sc tdb ''migrate'' [cc] w)) =
           console w @ [MigratingCollection (database sc) (sourceCollection cc) tdb (targetCollection cc),
                        syncOutcome (database sc) tdb cc w] \<and>
         firestore (snd (processCollections cfg sc tdb ''migrate'' [cc] w)) =
           putAll (copied (database sc) tdb cc w) (firestore w)"
proof -
  have l: "loadResumeToken (resumeTokenFilePath sc cc) w = (Inr tok, w)"
    using assms by (simp add: loadResumeToken_def readToken_def readFile_def JSON_parse_def andThen_def)
  show ?thesis
    by (simp add: l startLiveReplication_def Let_def truthy_default migrateCollection_console
          migrateCollection_firestore sync_say) (simp add: say_def)
qed

theorem initial_sync_iff_no_token_witness:
  "files resumedWorld (resumeTokenFilePath (source demoPair) usersMapping) =
     Content (Json (JObj [(''resumeToken'', JObj [(''_data'', JStr ''8265A1'')])])) \<and>
   truthy (JObj [(''_data'', JStr ''8265A1'')]) \<and>
   console (snd (processCollections demoConfig (source demoPair) ''(default)'' ''live''
                   [usersMapping] resumedWorld)) =
     [ResumeTokenFor ''shop'' ''users'' (JObj [(''_data'', JStr ''8265A1'')]),
      StartingLive ''shop'' ''users'' ''(default)'' ''people''] \<and>
   firestore (snd (processCollections demoConfig (source demoPair) ''(default)'' ''live''
                     [usersMapping] resumedWorld)) = firestore resumedWorld \<and>
   console (snd (processCollections demoConfig (source demoPair) ''(default)'' ''migrate''
                   [usersMapping] resumedWorld)) =
     [MigratingCollection ''shop'' ''users'' ''(default)'' ''people'',
      MigrationCompleted ''users''] \<and>
   files restartWorld (resumeTokenFilePath (source demoPair) usersMapping) =
     Content (Json (JObj [(''resumeToken'', JNull)])) \<and>
   \<not> truthy JNull \<and>
   console (snd (processCollections demoConfig (source demoPair) ''(default)'' ''live''
                   [usersMapping] restartWorld)) =
     [ResumeTokenFor ''shop'' ''users'' JNull,
      StartingLive ''shop'' ''users'' ''(default)'' ''people'',
      IAmHere,
      MigratingCollection ''shop'' ''users'' ''(default)'' ''people'',
      MigrationCompleted ''users'']"
proof -
  have p: "resumeTokenFilePath (source demoPair) usersMapping = ''resumeToken-shop-users.json''"
    by (simp add: resumeTokenFilePath_def demoPair_def usersMapping_def)
  have a: "files resumedWorld (resumeTokenFilePath (source demoPair) usersMapping) =
             Content (Json (JObj [(''resumeToken'', JObj [(''_data'', JStr ''8265A1'')])]))"
    by (simp add: p resumedWorld_def)
  have b: "files restartWorld (resumeTokenFilePath (source demoPair) usersMapping) =
             Content (Json (JObj [(''resumeToken'', JNull)]))"
    by (simp add: p restartWorld_def first_live_run_files)
  have c: "console resumedWorld = []" "console restartWorld = []"
    by (simp_all add: resumedWorld_def restartWorld_def demoWorld_def)
  have m: "mongo restartWorld = mongo demoWorld" "storeRefuses restartWorld = storeRefuses demoWorld"
    "mongo resumedWorld = mongo demoWorld" "storeRefuses resumedWorld = storeRefuses demoWorld"
    by (simp_all add: resumedWorld_def restartWorld_def liveWorld_def run_defs demo_defs)
  have o0: "syncOutcome ''shop'' ''(default)'' usersMapping demoWorld = MigrationCompleted ''users''"
    by (simp add: syncOutcome_def usersMapping_def demoWorld_def translate_def andThen_def
           showInt_def digits.simps refusal_def)
  have o: "syncOutcome ''shop'' ''(default)'' usersMapping restartWorld = MigrationCompleted ''users''"
    "syncOutcome ''shop'' ''(default)'' usersMapping resumedWorld = MigrationCompleted ''users''"
    by (simp_all add: sync_cong(1) [OF m(1,2)] sync_cong(1) [OF m(3,4)] o0)
  have d: "database (source demoPair) = ''shop''" "sourceCollection usersMapping = ''users''"
    "targetCollection usersMapping = ''people''"
    by (simp_all add: demoPair_def usersMapping_def)
  from initial_sync_iff_no_token [OF a, of demoConfig "''(default)''"]
       initial_sync_iff_no_token [OF b, of demoConfig "''(default)''"]
  show ?thesis using a b by (simp add: c d o)
qed

text \<open>
  C1 as stated fails: after a first \<open>live\<close> run the checkpoint file of \<open>users\<close> holds
  the placeholder, and the next start of the process migrates \<open>users\<close> again.
\<close>

theorem placeholder_does_not_skip_sync:
  "files restartWorld ''resumeToken-shop-users.json'' = Content (Json (JObj [(''resumeToken'', JNull)])) \<and>
   console (snd (startProcess demoConfig ''live'' restartWorld)) =
     [ResumeTokenFor ''shop'' ''orders'' JNull,
      StartingLive ''shop'' ''orders'' ''(default)'' ''orders'', IAmHere,
      MigratingCollection ''shop'' ''orders'' ''(default)'' ''orders'',
      ErrorMigrating ''orders'' TypeError,
      ResumeTokenFor ''shop'' ''users'' JNull,
      StartingLive ''shop'' ''users'' ''(default)'' ''people'', IAmHere,
      MigratingCollection ''shop'' ''users'' ''(default)'' ''people'',
      MigrationCompleted ''users'']"
  by (simp add: restartWorld_def liveWorld_def run_defs demo_defs)

subsection \<open>Document translation\<close>

lemma idsStringified_leaf: "typeof v \<noteq> ''object'' \<Longrightarrow> idsStringified v"
  by (cases v) simp_all

lemma convert_stringifies:
  "convertIdToString d = Inr d' \<Longrightarrow> idsStringified d'"
  "convertFields fs = Inr fs' \<Longrightarrow> fieldsStringified fs'"
  "convertElems xs = Inr xs' \<Longrightarrow> elemsStringified xs'"
proof (induction d and fs and xs arbitrary: d' and fs' and xs'
         rule: convertIdToString_convertFields_convertElems.induct)
  case (10 k v fs)
  then show ?case
    by (auto simp: andThen_def idsStringified_leaf split: sum.splits if_splits)
next
  case (12 x xs)
  then show ?case
    by (auto simp: andThen_def idsStringified_leaf split: sum.splits if_splits)
qed (auto simp: andThen_def split: sum.splits)

lemma convertFields_keys: "convertFields fs = Inr fs' \<Longrightarrow> map fst fs' = map fst fs"
  by (induction fs arbitrary: fs') (auto simp: andThen_def split: sum.splits if_splits)

lemma convertFields_id:
  "convertFields fs = Inr fs' \<Longrightarrow> map_of fs ''_id'' = Some v \<Longrightarrow>
   \<exists>s. toString v = Inr s \<and> map_of fs' ''_id'' = Some (JStr s)"
  by (induction fs arbitrary: fs') (auto simp: andThen_def split: sum.splits if_splits)

lemma fieldsStringified_filter:
  "fieldsStringified fs \<Longrightarrow> fieldsStringified (filter (\<lambda>(k', v). k' \<noteq> k) fs)"
  by (induction fs) auto

text \<open>
  What the initial sync writes for a document: the key is the text of the top-level
  \<open>_id\<close>, the body has no top-level \<open>_id\<close>, and every \<open>_id\<close> nested in the body
  holds a string.
\<close>

lemma translate_document:
  assumes "translate (JObj fs) = Inr (key, body)"
  shows "\<exists>v. map_of fs ''_id'' = Some v \<and> toString v = Inr key \<and>
             getField body ''_id'' = Inr JUndefined \<and> idsStringified body"
proof -
  from assms obtain fs' where c: "convertFields fs = Inr fs'"
    and k: "firestoreDoc (case map_of fs' ''_id'' of None \<Rightarrow> JUndefined | Some v \<Rightarrow> v) = Inr key"
    and b: "body = JObj (filter (\<lambda>(k', v). k' \<noteq> ''_id'') fs')"
    by (auto simp: translate_def andThen_def split: sum.splits option.splits)
  from convertFields_keys [OF c] have d: "map_of fs ''_id'' = None \<longleftrightarrow> map_of fs' ''_id'' = None"
    by (metis map_of_eq_None_iff set_map)
  from k obtain v where v: "map_of fs ''_id'' = Some v"
    using d by (cases "map_of fs ''_id''") (auto split: option.splits)
  from convertFields_id [OF c v] k have t: "toString v = Inr key"
    by (auto split: if_splits)
  have n: "map_of (filter (\<lambda>(k', v). k' \<noteq> ''_id'') fs') ''_id'' = None"
    by (auto simp: map_of_eq_None_iff)
  from convert_stringifies(2) [OF c]
  have "fieldsStringified fs'" .
  with v t n b show ?thesis by (simp add: fieldsStringified_filter)
qed

lemmas handler_defs =
  onChange_def applyChange_def eventKey_def andThen_def refSet_def refUpdate_def refDelete_def
  refusal_def
  saveResumeToken_def writeFile_def checkpointText_def say_def showInt_def digits.simps Let_def

lemmas event_defs =
  demoPipeline_def insertEv_def updateEv_def deleteEv_def malformedEv_def nestedEv_def
  lostUpdateEv_def demoWorld_def syncedWorld_def

text \<open>
  C6. The listener of the change stream does not call \<open>convertIdToString\<close>. For the
  insert of a document with the nested field \<open>owner._id = 7\<close>, it stores \<open>owner._id\<close> as
  the number 7, while the translation used by the initial sync turns the same field of
  the same document into the string \<open>7\<close>.
\<close>

theorem live_insert_keeps_nested_id:
  "(case applyChange ''(default)'' ''people'' nestedEv demoWorld of
      Inl e \<Rightarrow> False
    | Inr w' \<Rightarrow>
        (case firestore w' (''(default)'', ''people'', ''65f1c0ffee'') of
           None \<Rightarrow> False
         | Some b \<Rightarrow> b ''owner'' = Some (JObj [(''_id'', JNum 7)]))) \<and>
   translate (fullDocument nestedEv) =
     Inr (''65f1c0ffee'', JObj [(''owner'', JObj [(''_id'', JStr ''7'')])])"
  by (simp add: applyChange_def nestedEv_def eventKey_def andThen_def refSet_def refusal_def
        demo_storeRefuses translate_def showInt_def digits.simps)

subsection \<open>Applying a change\<close>

lemma eventKey_Inr:
  "eventKey d = Inr key \<Longrightarrow> \<exists>i. getField d ''_id'' = Inr i \<and> toString i = Inr key \<and> key \<noteq> []"
  by (auto simp: eventKey_def andThen_def split: sum.splits if_splits)

lemma map_add_twice: "(m ++ b) ++ b = m ++ (b :: 'a \<Rightarrow> 'b option)"
  by (rule ext) (simp add: map_add_def split: option.splits)

lemma applyChange_idem:
  assumes "applyChange tdb tc ch w = Inr w'"
  shows "applyChange tdb tc ch w' = Inr w'"
  using assms
  by (auto simp: applyChange_def andThen_def refSet_def refUpdate_def refDelete_def map_add_twice
        split: sum.splits if_splits option.splits)

text \<open>
  C2, as the script has it. A change that is applied without an error is keyed by the
  text of the \<open>_id\<close> of its full document. An insert replaces the target document by the
  full document without its \<open>_id\<close>. An update needs the target document to exist and
  overwrites its fields by those of the full document, keeping every other field.
  Applying the same change once more leaves the target as it is.
\<close>

theorem insert_replaces_update_merges:
  assumes "applyChange tdb tc ch w = Inr w'"
  shows "(operationType ch = ''insert'' \<longrightarrow>
           (\<exists>i key. getField (fullDocument ch) ''_id'' = Inr i \<and> toString i = Inr key \<and>
              firestore w' = (firestore w)((tdb, tc, key) \<mapsto>
                 bodyOf (deleteField ''_id'' (fullDocument ch))))) \<and>
         (operationType ch = ''update'' \<longrightarrow>
           (\<exists>i key old. getField (fullDocument ch) ''_id'' = Inr i \<and> toString i = Inr key \<and>
              firestore w (tdb, tc, key) = Some old \<and>
              firestore w' = (firestore w)((tdb, tc, key) \<mapsto>
                 old ++ bodyOf (deleteField ''_id'' (fullDocument ch))))) \<and>
         applyChange tdb tc ch w' = Inr w'"
proof (intro conjI impI)
  assume "operationType ch = ''insert''"
  with assms obtain key where k: "eventKey (fullDocument ch) = Inr key"
    and w': "refSet (tdb, tc, key) (deleteField ''_id'' (fullDocument ch)) w = Inr w'"
    by (auto simp: applyChange_def andThen_def split: sum.splits)
  from eventKey_Inr [OF k] w'
  show "\<exists>i key. getField (fullDocument ch) ''_id'' = Inr i \<and> toString i = Inr key \<and>
          firestore w' = (firestore w)((tdb, tc, key) \<mapsto>
             bodyOf (deleteField ''_id'' (fullDocument ch)))"
    by (auto simp: refSet_def split: option.splits)
next
  assume "operationType ch = ''update''"
  with assms obtain key where k: "eventKey (fullDocument ch) = Inr key"
    and u: "refUpdate (tdb, tc, key) (deleteField ''_id'' (fullDocument ch)) w = Inr w'"
    by (auto simp: applyChange_def andThen_def split: sum.splits)
  from u obtain old where "firestore w (tdb, tc, key) = Some old"
    and "firestore w' = (firestore w)((tdb, tc, key) \<mapsto>
           old ++ bodyOf (deleteField ''_id'' (fullDocument ch)))"
    by (auto simp: refUpdate_def split: option.splits)
  with eventKey_Inr [OF k]
  show "\<exists>i key old. getField (fullDocument ch) ''_id'' = Inr i \<and> toString i = Inr key \<and>
          firestore w (tdb, tc, key) = Some old \<and>
          firestore w' = (firestore w)((tdb, tc, key) \<mapsto>
             old ++ bodyOf (deleteField ''_id'' (fullDocument ch)))"
    by blast
next
  show "applyChange tdb tc ch w' = Inr w'" by (rule applyChange_idem [OF assms])
qed

theorem insert_replaces_update_merges_witness:
  "applyChange ''(default)'' ''people'' updateEv syncedWorld =
     Inr (syncedWorld\<lparr>firestore := (firestore syncedWorld)
            ((''(default)'', ''people'', ''1'') \<mapsto>
               map_of [(''name'', JStr ''a''), (''age'', JNum 30)] ++ map_of [(''name'', JStr ''b'')])\<rparr>) \<and>
   operationType updateEv = ''update'' \<and>
   applyChange ''(default)'' ''people'' updateEv
     (syncedWorld\<lparr>firestore := (firestore syncedWorld)
            ((''(default)'', ''people'', ''1'') \<mapsto>
               map_of [(''name'', JStr ''a''), (''age'', JNum 30)] ++ map_of [(''name'', JStr ''b'')])\<rparr>) =
     Inr (syncedWorld\<lparr>firestore := (firestore syncedWorld)
            ((''(default)'', ''people'', ''1'') \<mapsto>
               map_of [(''name'', JStr ''a''), (''age'', JNum 30)] ++ map_of [(''name'', JStr ''b'')])\<rparr>)"
proof -
  have a: "applyChange ''(default)'' ''people'' updateEv syncedWorld =
     Inr (syncedWorld\<lparr>firestore := (firestore syncedWorld)
            ((''(default)'', ''people'', ''1'') \<mapsto>
               map_of [(''name'', JStr ''a''), (''age'', JNum 30)] ++ map_of [(''name'', JStr ''b'')])\<rparr>)"
    by (simp add: applyChange_def eventKey_def andThen_def refUpdate_def refusal_def
          demo_storeRefuses showInt_def digits.simps updateEv_def)
       (simp add: syncedWorld_def)
  have b: "operationType updateEv = ''update''" by (simp add: updateEv_def)
  from insert_replaces_update_merges [OF a] a b show ?thesis by simp
qed

text \<open>
  C2 as stated fails for updates: the target document keeps the field \<open>age\<close>, which the
  full document of the update does not have.
\<close>

theorem update_is_not_a_replace:
  "(case applyChange ''(default)'' ''people'' updateEv syncedWorld of
      Inl e \<Rightarrow> False
    | Inr w' \<Rightarrow>
        (case firestore w' (''(default)'', ''people'', ''1'') of
           None \<Rightarrow> False
         | Some b \<Rightarrow> b ''name'' = Some (JStr ''b'') \<and> b ''age'' = Some (JNum 30))) \<and>
   bodyOf (deleteField ''_id'' (fullDocument updateEv)) ''age'' = None"
  by (simp add: applyChange_def updateEv_def eventKey_def andThen_def refUpdate_def refusal_def
        demo_storeRefuses showInt_def digits.simps)
     (simp add: syncedWorld_def)

text \<open>
  C3, as the script has it. An insert or update whose full document has no top-level
  \<open>_id\<close> (or is \<open>null\<close> or \<open>undefined\<close>) makes the listener throw a TypeError before
  anything is written: the listener catches nothing, prints nothing, and does not count
  the event.
\<close>

theorem missing_identifier_throws:
  assumes "operationType ch = ''insert'' \<or> operationType ch = ''update''"
    and "getField (fullDocument ch) ''_id'' = Inr JUndefined \<or>
         getField (fullDocument ch) ''_id'' = Inl TypeError"
  shows "onChange p ch w = Inl TypeError"
  using assms by (auto simp: onChange_def applyChange_def eventKey_def andThen_def)

theorem missing_identifier_throws_witness:
  "operationType lostUpdateEv = ''update'' \<and>
   getField (fullDocument lostUpdateEv) ''_id'' = Inl TypeError \<and>
   onChange demoPipeline lostUpdateEv demoWorld = Inl TypeError"
proof -
  have a: "operationType lostUpdateEv = ''update''"
    and b: "getField (fullDocument lostUpdateEv) ''_id'' = Inl TypeError"
    by (simp_all add: lostUpdateEv_def)
  from missing_identifier_throws [of lostUpdateEv demoPipeline demoWorld] a b
  show ?thesis by simp
qed

text \<open>
  C3 as stated fails: for an insert without \<open>_id\<close> the listener ends with the thrown
  TypeError instead of reporting the event and going on.
\<close>

theorem malformed_event_throws:
  "onChange demoPipeline malformedEv demoWorld = Inl TypeError"
  by (simp add: handler_defs malformedEv_def)

subsection \<open>Saving the resume token\<close>

lemma due_Nil: "due N c [] = []"
  by (simp add: due_def)

lemma due_Cons: "due N c (x # xs) = (if N dvd c + 1 then [x] else []) @ due N (Suc c) xs"
proof -
  have "[0..<length (x # xs)] = 0 # map Suc [0..<length xs]"
    by (simp add: upt_conv_Cons map_Suc_upt del: upt_Suc)
  then show ?thesis
    by (simp add: due_def filter_map comp_def)
qed

lemma due_period:
  assumes "N dvd c"
  shows "due N c xs = due N 0 xs"
proof -
  have "N dvd c + i + 1 \<longleftrightarrow> N dvd 0 + i + 1" for i
    using assms by (simp add: dvd_add_right_iff add.assoc del: add_Suc_right)
  then show ?thesis by (simp only: due_def)
qed

lemma everyNth_due: "everyNth N xs = due N 0 xs"
  by (simp add: everyNth_def due_def)

lemma applyChange_calls:
  "applyChange tdb tc ch w = Inr w' \<Longrightarrow> writeFileCalls w' = writeFileCalls w"
  by (auto simp: applyChange_def andThen_def refSet_def refUpdate_def refDelete_def
        split: sum.splits if_splits option.splits)

lemma onChange_step:
  assumes "onChange p ch w = Inr (p', w')" and "changeCount p < threshold p"
  shows "threshold p' = threshold p \<and> tokenPath p' = tokenPath p \<and>
         changeCount p' = (if Suc (changeCount p) = threshold p then 0 else Suc (changeCount p)) \<and>
         writeFileCalls w' = writeFileCalls w @
           (if Suc (changeCount p) = threshold p
            then [(tokenPath p, checkpointText (resumeTokenAfter ch))] else [])"
proof -
  from assms(1) obtain w1 where a: "applyChange (targetDb p) (targetColl p) ch w = Inr w1"
    and r: "(p', w') =
             (if threshold p \<le> Suc (changeCount p)
              then (p\<lparr>changeCount := 0\<rparr>, saveResumeToken (tokenPath p) (resumeTokenAfter ch) w1)
              else (p\<lparr>changeCount := Suc (changeCount p)\<rparr>, w1))"
    by (auto simp: onChange_def andThen_def Let_def split: sum.splits if_splits)
  from assms(2) have e: "threshold p \<le> Suc (changeCount p) \<longleftrightarrow> Suc (changeCount p) = threshold p"
    by auto
  show ?thesis
  proof (cases "Suc (changeCount p) = threshold p")
    case True
    with r e have "p' = p\<lparr>changeCount := 0\<rparr>"
      and "w' = saveResumeToken (tokenPath p) (resumeTokenAfter ch) w1" by simp_all
    with True applyChange_calls [OF a] show ?thesis by (simp add: saveResumeToken_calls)
  next
    case False
    with r e have "p' = p\<lparr>changeCount := Suc (changeCount p)\<rparr>" and "w' = w1" by simp_all
    with False applyChange_calls [OF a] show ?thesis by simp
  qed
qed

lemma deliver_calls:
  assumes "deliver chs p w = Inr (p', w')" and "changeCount p < threshold p"
  shows "writeFileCalls w' = writeFileCalls w @
           map (\<lambda>ch. (tokenPath p, checkpointText (resumeTokenAfter ch)))
             (due (threshold p) (changeCount p) chs) \<and>
         changeCount p' = (changeCount p + length chs) mod threshold p"
  using assms
proof (induction chs arbitrary: p w)
  case Nil
  then show ?case by (simp add: due_Nil)
next
  case (Cons ch chs)
  from Cons.prems(1) obtain p1 w1 where s: "onChange p ch w = Inr (p1, w1)"
    and d: "deliver chs p1 w1 = Inr (p', w')"
    by (auto split: sum.splits)
  note st = onChange_step [OF s Cons.prems(2)]
  show ?case
  proof (cases "Suc (changeCount p) = threshold p")
    case True
    with st have c1: "changeCount p1 = 0" and t1: "threshold p1 = threshold p"
      and pa: "tokenPath p1 = tokenPath p"
      and w1: "writeFileCalls w1 = writeFileCalls w @ [(tokenPath p, checkpointText (resumeTokenAfter ch))]"
      by simp_all
    from Cons.prems(2) c1 t1 have lt: "changeCount p1 < threshold p1" by simp
    have m: "(changeCount p + length (ch # chs)) mod threshold p = length chs mod threshold p"
    proof -
      have "changeCount p + length (ch # chs) = threshold p + length chs" using True by simp
      then have "(changeCount p + length (ch # chs)) mod threshold p =
                   (threshold p + length chs) mod threshold p" by (simp only:)
      also have "\<dots> = length chs mod threshold p" by simp
      finally show ?thesis .
    qed
    from Cons.IH [OF d lt] c1 t1 pa w1 True m show ?thesis
      by (simp add: due_Cons due_period [OF dvd_refl])
  next
    case False
    with st have c1: "changeCount p1 = Suc (changeCount p)" and t1: "threshold p1 = threshold p"
      and pa: "tokenPath p1 = tokenPath p"
      and w1: "writeFileCalls w1 = writeFileCalls w"
      by simp_all
    from Cons.prems(2) False c1 t1 have lt: "changeCount p1 < threshold p1" by simp
    have nd: "\<not> threshold p dvd Suc (changeCount p)"
      using Cons.prems(2) False by (auto dest!: dvd_imp_le)
    from Cons.IH [OF d lt] c1 t1 pa w1 nd show ?thesis
      by (simp add: due_Cons)
  qed
qed

text \<open>
  C4, as the script has it. With a threshold \<open>N \<ge> 1\<close> and the counter at zero, when the
  events are handed to the listener one after the other and all are applied, the writes
  of the checkpoint file are exactly those after the events number \<open>N\<close>, \<open>2N\<close>, ..., each
  with the stream position after that event; the counter ends at the number of events
  modulo \<open>N\<close>; and with fewer than \<open>N\<close> events nothing is written.
\<close>

theorem checkpoint_every_threshold:
  assumes "1 \<le> threshold p" and "changeCount p = 0" and "deliver chs p w = Inr (p', w')"
  shows "writeFileCalls w' = writeFileCalls w @
           map (\<lambda>ch. (tokenPath p, checkpointText (resumeTokenAfter ch)))
             (everyNth (threshold p) chs) \<and>
         changeCount p' = length chs mod threshold p \<and>
         (length chs < threshold p \<longrightarrow> writeFileCalls w' = writeFileCalls w)"
proof -
  from assms(1,2) have lt: "changeCount p < threshold p" by simp
  have none: "length chs < threshold p \<Longrightarrow> everyNth (threshold p) chs = []"
    by (auto simp: everyNth_def filter_empty_conv dest!: dvd_imp_le)
  from deliver_calls [OF assms(3) lt] assms(2) none show ?thesis
    by (simp add: everyNth_due)
qed

lemma three_dvd_small:
  "\<not> 3 dvd Suc 0" "\<not> 3 dvd Suc (Suc 0)" "3 dvd Suc (Suc (Suc 0))"
  "\<not> 3 dvd Suc (Suc (Suc (Suc 0)))"
  by presburger+

lemma everyNth_demo: "everyNth 3 [a, b, c, d] = [c]"
  by (simp add: everyNth_def upt_rec three_dvd_small)

theorem checkpoint_every_threshold_witness:
  "1 \<le> threshold demoPipeline \<and> changeCount demoPipeline = 0 \<and>
   (case deliver [insertEv, updateEv, deleteEv, insertEv] demoPipeline demoWorld of
      Inl e \<Rightarrow> False
    | Inr (p', w') \<Rightarrow>
        writeFileCalls w' =
          [(''resumeToken-shop-users.json'',
            Json (JObj [(''resumeToken'', JObj [(''_data'', JStr ''03'')])]))] \<and>
        changeCount p' = 1)"
proof -
  have t: "1 \<le> threshold demoPipeline" and c: "changeCount demoPipeline = 0"
    by (simp_all add: demoPipeline_def)
  obtain p' w' where d: "deliver [insertEv, updateEv, deleteEv, insertEv] demoPipeline demoWorld = Inr (p', w')"
    by (cases "deliver [insertEv, updateEv, deleteEv, insertEv] demoPipeline demoWorld")
       (simp_all add: handler_defs event_defs)
  from checkpoint_every_threshold [OF t c d]
  have "writeFileCalls w' =
          [(''resumeToken-shop-users.json'',
            Json (JObj [(''resumeToken'', JObj [(''_data'', JStr ''03'')])]))] \<and>
        changeCount p' = 1"
    by (simp add: demoPipeline_def demoWorld_def everyNth_demo deleteEv_def checkpointText_def)
  with t c d show ?thesis by simp
qed

lemma liveWorld_streams:
  "streams liveWorld =
     [\<lparr>targetDb = ''(default)'', targetColl = ''orders'',
       tokenPath = ''resumeToken-shop-orders.json'', threshold = 3,
       startAfter = None, changeCount = 0\<rparr>,
      demoPipeline]"
  by (simp add: liveWorld_def run_defs demo_defs demoPipeline_def)

text \<open>
  C4 as stated fails in its last part: the script has no code that runs at shutdown, so
  what is on disk when the process stops is what the listener wrote. In a first \<open>live\<close>
  run, after two events under a threshold of three, nothing has been written since the
  start and the checkpoint file still holds the placeholder.
\<close>

theorem no_checkpoint_below_threshold:
  "demoPipeline \<in> set (streams liveWorld) \<and>
   (case deliver [insertEv, updateEv] demoPipeline liveWorld of
      Inl e \<Rightarrow> False
    | Inr (p', w') \<Rightarrow>
        changeCount p' = 2 \<and> writeFileCalls w' = writeFileCalls liveWorld \<and>
        files w' ''resumeToken-shop-users.json'' =
          Content (Json (JObj [(''resumeToken'', JNull)])))"
  by (simp add: liveWorld_streams)
     (simp add: handler_defs demoPipeline_def insertEv_def updateEv_def first_live_run_files
        demo_storeRefuses)

subsection \<open>Events handed over in order\<close>

text \<open>
  When the events are handed to the listener one after the other, a delete leaves no
  document under its key, whatever was applied before; so the insert, the update and
  the delete of document 1, in this order, leave no document 1.
\<close>

lemma saveResumeToken_firestore: "firestore (saveResumeToken path tok w) = firestore w"
  by (simp add: saveResumeToken_def writeFile_def say_def)

lemma delete_leaves_no_document:
  assumes "onChange p ch w = Inr (p', w')" and "operationType ch = ''delete''"
    and "eventKey (documentKey ch) = Inr key"
  shows "firestore w' (targetDb p, targetColl p, key) = None"
  using assms
  by (auto simp: onChange_def applyChange_def andThen_def Let_def refDelete_def
        saveResumeToken_firestore split: if_splits)

lemma insert_update_delete_in_order:
  "(case deliver [insertEv, updateEv, deleteEv] demoPipeline demoWorld of
      Inl e \<Rightarrow> False
    | Inr (p', w') \<Rightarrow> firestore w' (''(default)'', ''people'', ''1'') = None)"
  by (simp add: handler_defs event_defs)

end
